theory Spec2Isabelle
  imports Complex_Main
begin

section \<open>IPyIDA kernel glue (src/ipyida/kernel.py)\<close>

text \<open>
  The module embeds an IPython kernel into IDA. Everything it does is an effect on
  process-wide Python state (\<open>sys.stdout\<close>, \<open>sys.stderr\<close>, the two hooks, \<open>sys.modules\<close>,
  the \<open>IPKernelApp\<close> singleton) or a call into a collaborator (the engine, the host
  console, the host scheduler). The embedding therefore is a state-and-exception
  embedding:
  \<^item> the process-wide state is the record \<open>world\<close>;
  \<^item> every call into a collaborator appends one \<open>event\<close> to the \<open>trace\<close> of the world,
    and its effect and outcome are a parameter (a field of \<open>env\<close>);
  \<^item> a Python computation is a function \<open>'s \<Rightarrow> (exn + 'a) \<times> 's\<close>: \<open>Inl e\<close> is the
    exception \<open>e\<close> propagating, \<open>Inr v\<close> a normal return of \<open>v\<close>; the state is returned in
    both cases, since an exception does not undo assignments.
\<close>

subsection \<open>Python values, exceptions, callables\<close>

text \<open>A reference to a Python object is its identity; \<open>PyNone\<close> is \<open>None\<close>.\<close>

datatype pyval = PyNone | PyRef nat

text \<open>
  \<open>Exception msg\<close> is what the module itself raises (\<open>raise Exception(msg)\<close>);
  \<open>KeyError\<close> and \<open>AttributeError\<close> come from the lookups it performs; \<open>Foreign n\<close> is
  any exception raised inside a collaborator.
\<close>

datatype exn = Exception string | KeyError string | AttributeError string | Foreign nat

text \<open>
  A callable that can sit in \<open>sys.excepthook\<close> or \<open>sys.displayhook\<close>: a callable of
  the host or the engine (\<open>Builtin f\<close>), or one of the two closures the module builds.
  A closure is represented by the two callables it calls: the module global
  \<open>_ida_excepthook\<close> (\<open>_ida_displayhook\<close>), which is assigned once at import and never
  again, and its captured argument.
\<close>

datatype hook =
    Builtin nat
  | Ipyida_excepthook hook hook
  | Ipyida_displayhook hook hook

text \<open>The timer callback \<open>ipython_kernel_iteration\<close> defined inside \<open>start\<close>.\<close>

datatype callback = Ipython_kernel_iteration

subsection \<open>Events and the world\<close>

datatype event =
    Sink_write nat string
    \<comment> \<open>\<open>obj.write(string)\<close> on a host console stream\<close>
  | Engine_write string string
    \<comment> \<open>\<open>OutStream.write(self, string)\<close>, with \<open>self.name\<close>\<close>
  | Hook_call nat "pyval list"
    \<comment> \<open>a host or engine hook called with positional arguments\<close>
  | Super_setup_stream_redirects string pyval pyval
    \<comment> \<open>\<open>OutStream._setup_stream_redirects(self, name)\<close>, with the \<open>sys.stdout\<close> and
        \<open>sys.stderr\<close> that are active when it is entered\<close>
  | Get_logger string
  | Logger_set_level
  | App_instance string
    \<comment> \<open>\<open>IPKernelApp.instance(outstream_class=..., log=logger)\<close>, creating the singleton\<close>
  | App_initialize "string list option"
    \<comment> \<open>\<open>app.initialize(argv)\<close>; \<open>None\<close> is the call without argument\<close>
  | Set_completer_frame
  | Kernel_start
  | Kernel_do_one_iteration
  | Print string
  | Register_timer int callback
  | Unregister_timer pyval

record world =
  sys_stdout :: pyval
  sys_stderr :: pyval
  sys_dunder_stdout :: pyval
    \<comment> \<open>\<open>sys.__stdout__\<close>\<close>
  sys_excepthook :: hook
  sys_displayhook :: hook
  sys_modules :: "string \<rightharpoonup> pyval"
  module_attrs :: "nat \<Rightarrow> string \<rightharpoonup> pyval"
    \<comment> \<open>the attributes of each module object\<close>
  exec_files :: "string list"
    \<comment> \<open>the class attribute \<open>IPKernelApp.exec_files\<close>\<close>
  app_initialized :: bool
    \<comment> \<open>\<open>IPKernelApp.initialized()\<close>\<close>
  app_connection_file :: string
    \<comment> \<open>\<open>app.connection_file\<close>\<close>
  kernel_poll_interval :: rat
    \<comment> \<open>\<open>app.kernel._poll_interval\<close>, a finite float, in seconds\<close>
  orig_sys_modules_main_mod :: pyval
    \<comment> \<open>\<open>app.kernel.shell._orig_sys_modules_main_mod\<close>\<close>
  orig_sys_modules_main_name :: string
    \<comment> \<open>\<open>app.kernel.shell._orig_sys_modules_main_name\<close>\<close>
  trace :: "event list"

subsection \<open>Computations\<close>

type_synonym ('s, 'a) py = "'s \<Rightarrow> (exn + 'a) \<times> 's"

definition py_return :: "'a \<Rightarrow> ('s, 'a) py" where
  "py_return v = (\<lambda>s. (Inr v, s))"

definition py_raise :: "exn \<Rightarrow> ('s, 'a) py" where
  "py_raise e = (\<lambda>s. (Inl e, s))"

text \<open>Statement sequencing: an exception in the first part skips the second.\<close>

definition py_bind :: "('s, 'a) py \<Rightarrow> ('a \<Rightarrow> ('s, 'b) py) \<Rightarrow> ('s, 'b) py" where
  "py_bind m f = (\<lambda>s. case m s of (Inl e, s') \<Rightarrow> (Inl e, s') | (Inr v, s') \<Rightarrow> f v s')"

text \<open>
  \<open>try: m finally: h\<close>: the handler runs on the state the body left, whether the
  body returned or raised; the outcome is the body's unless the handler raises.
\<close>

definition py_finally :: "('s, 'a) py \<Rightarrow> ('s, unit) py \<Rightarrow> ('s, 'a) py" where
  "py_finally m h =
     (\<lambda>s. case m s of (r, s') \<Rightarrow>
        (case h s' of (Inl e, s'') \<Rightarrow> (Inl e, s'') | (Inr u, s'') \<Rightarrow> (r, s'')))"

text \<open>
  A call into a collaborator: the collaborator's own effect \<open>f\<close> on the world, and
  one event on the trace. The trace is the record kept of the calls; the collaborator
  cannot write to it.
\<close>

definition external :: "event \<Rightarrow> (world, 'a) py \<Rightarrow> (world, 'a) py" where
  "external ev f = (\<lambda>w. case f w of (r, w') \<Rightarrow> (r, w'\<lparr>trace := trace w @ [ev]\<rparr>))"

subsection \<open>Collaborators\<close>

text \<open>
  The behaviour of everything outside the module. Each field with a \<open>py\<close> type is the
  effect and outcome of one collaborator call. The host scheduler's two functions
  (\<open>idaapi.register_timer\<close>, \<open>idaapi.unregister_timer\<close>) report through their return
  value and touch no Python state: \<open>register_timer\<close> is the handle returned.
  \<open>float_mul\<close> is the multiplication of two floats (with its rounding).
\<close>

record env =
  kernel_has_process_one :: bool
    \<comment> \<open>\<open>hasattr(ipykernel.kernelbase.Kernel, "process_one")\<close>\<close>
  environ :: "string \<rightharpoonup> string"
    \<comment> \<open>\<open>os.environ\<close>\<close>
  path_exists :: "string \<Rightarrow> bool"
    \<comment> \<open>\<open>os.path.exists\<close>\<close>
  ipyidarc_path :: string
    \<comment> \<open>\<open>os.path.join(idaapi.get_user_idadir(), 'ipyidarc.py')\<close>\<close>
  fileno :: "nat \<Rightarrow> int"
  devnull_file :: nat
    \<comment> \<open>the object \<open>open(os.devnull, "w")\<close> returns\<close>
  obj_truthy :: "nat \<Rightarrow> bool"
    \<comment> \<open>\<open>bool(obj)\<close>: what the object's \<open>__bool__\<close> or \<open>__len__\<close> makes of it\<close>
  float_mul :: "rat \<Rightarrow> rat \<Rightarrow> rat"
  sink_write :: "nat \<Rightarrow> string \<Rightarrow> (world, unit) py"
  engine_write :: "string \<Rightarrow> string \<Rightarrow> (world, unit) py"
  hook_body :: "nat \<Rightarrow> pyval list \<Rightarrow> (world, unit) py"
  super_setup_stream_redirects :: "string \<Rightarrow> (world, pyval) py"
  app_instance :: "string \<Rightarrow> (world, unit) py"
  app_initialize :: "string list option \<Rightarrow> (world, unit) py"
  set_completer_frame :: "(world, unit) py"
  kernel_start :: "(world, unit) py"
  kernel_do_one_iteration :: "(world, unit) py"
  print :: "string \<Rightarrow> (world, unit) py"
  register_timer :: "int \<Rightarrow> callback \<Rightarrow> pyval"

text \<open>
  The truth value \<open>if obj:\<close> and \<open>x and obj\<close> test: \<open>None\<close> is false, any other object
  is as true as its class makes it.
\<close>

fun truthy :: "env \<Rightarrow> pyval \<Rightarrow> bool" where
  "truthy env PyNone = False"
| "truthy env (PyRef r) = obj_truthy env r"

subsection \<open>Module globals (lines 20--43)\<close>

record globals =
  ida_stdout :: pyval
  ida_stderr :: pyval
  IPYIDARC_PATH :: string
  ida_excepthook :: hook
  ida_displayhook :: hook

text \<open>
  Executing the module body: the four saved host handles are read from \<open>sys\<close>, and
  \<open>sys.__stdout__\<close> is replaced by the null device when it is \<open>None\<close> or has a
  negative file descriptor.
\<close>

definition module_load :: "env \<Rightarrow> world \<Rightarrow> globals \<times> world" where
  "module_load env w =
     (let w' = (case sys_dunder_stdout w of
                  PyNone \<Rightarrow> w\<lparr>sys_dunder_stdout := PyRef (devnull_file env)\<rparr>
                | PyRef f \<Rightarrow> if fileno env f < 0
                             then w\<lparr>sys_dunder_stdout := PyRef (devnull_file env)\<rparr> else w)
      in (\<lparr>ida_stdout = sys_stdout w, ida_stderr = sys_stderr w,
           IPYIDARC_PATH = ipyidarc_path env,
           ida_excepthook = sys_excepthook w', ida_displayhook = sys_displayhook w'\<rparr>, w'))"

definition is_using_ipykernel_5 :: "env \<Rightarrow> bool" where
  "is_using_ipykernel_5 env = kernel_has_process_one env"

subsection \<open>\<open>IDATeeOutStream\<close> (lines 50--77)\<close>

record out_stream =
  name :: string

text \<open>\<open>sys.modules["__main__"].attr\<close>\<close>

definition main_attr :: "string \<Rightarrow> (world, pyval) py" where
  "main_attr attr = (\<lambda>w.
     case sys_modules w ''__main__'' of
       None \<Rightarrow> (Inl (KeyError ''__main__''), w)
     | Some PyNone \<Rightarrow> (Inl (AttributeError attr), w)
     | Some (PyRef m) \<Rightarrow>
         (case module_attrs w m attr of
            None \<Rightarrow> (Inl (AttributeError attr), w)
          | Some v \<Rightarrow> (Inr v, w)))"

definition super_setup :: "env \<Rightarrow> string \<Rightarrow> (world, pyval) py" where
  "super_setup env nm = (\<lambda>w.
     external (Super_setup_stream_redirects nm (sys_stdout w) (sys_stderr w))
       (super_setup_stream_redirects env nm) w)"

definition setup_stream_redirects :: "env \<Rightarrow> out_stream \<Rightarrow> string \<Rightarrow> (world, pyval) py" where
  "setup_stream_redirects env self nm = (\<lambda>w.
     let ida_ios = (sys_stdout w, sys_stderr w) in
     py_finally
       (py_bind (main_attr ''_orig_stdout'') (\<lambda>out.
        py_bind (\<lambda>w. (Inr (), w\<lparr>sys_stdout := out\<rparr>)) (\<lambda>_.
        py_bind (main_attr ''_orig_stderr'') (\<lambda>err.
        py_bind (\<lambda>w. (Inr (), w\<lparr>sys_stderr := err\<rparr>)) (\<lambda>_.
        super_setup env nm)))))
       (\<lambda>w. (Inr (), w\<lparr>sys_stdout := fst ida_ios, sys_stderr := snd ida_ios\<rparr>))
       w)"

text \<open>\<open>sink.write(string)\<close> on a saved host stream.\<close>

fun host_write :: "env \<Rightarrow> pyval \<Rightarrow> string \<Rightarrow> (world, unit) py" where
  "host_write env PyNone s = py_raise (AttributeError ''write'')"
| "host_write env (PyRef r) s = external (Sink_write r s) (sink_write env r s)"

text \<open>
  \<open>super(self.__class__, self).write(string)\<close>, for an instance whose class is
  \<open>IDATeeOutStream\<close> itself (the engine instantiates the configured class).
\<close>

definition super_write :: "env \<Rightarrow> out_stream \<Rightarrow> string \<Rightarrow> (world, unit) py" where
  "super_write env self s = external (Engine_write (name self) s) (engine_write env (name self) s)"

text \<open>
  \<open>IDATeeOutStream.write\<close> (\<open>write\<close> alone is a keyword of the proof language, hence the
  prefix).
\<close>

definition tee_write :: "env \<Rightarrow> globals \<Rightarrow> out_stream \<Rightarrow> string \<Rightarrow> (world, unit) py" where
  "tee_write env g self s =
     py_bind
       (if name self = ''stdout'' \<and> truthy env (ida_stdout g)
        then host_write env (ida_stdout g) s
        else if name self = ''stderr'' \<and> truthy env (ida_stderr g)
        then host_write env (ida_stderr g) s
        else py_return ())
       (\<lambda>_. super_write env self s)"

subsection \<open>Hook wrappers (lines 79--97)\<close>

text \<open>Calling a hook with positional arguments \<open>args\<close>.\<close>

fun call_hook :: "env \<Rightarrow> hook \<Rightarrow> pyval list \<Rightarrow> (world, unit) py" where
  "call_hook env (Builtin f) args w = external (Hook_call f args) (hook_body env f args) w"
| "call_hook env (Ipyida_excepthook ida ipython) args w =
     (case call_hook env ida args w of
        (Inl e, w') \<Rightarrow> (Inl e, w')
      | (Inr u, w') \<Rightarrow> call_hook env ipython args w')"
| "call_hook env (Ipyida_displayhook ida ipython) args w =
     (case call_hook env ida args w of
        (Inl e, w') \<Rightarrow> (Inl e, w')
      | (Inr u, w') \<Rightarrow> call_hook env ipython args w')"

definition wrap_excepthook :: "globals \<Rightarrow> hook \<Rightarrow> hook" where
  "wrap_excepthook g ipython_excepthook = Ipyida_excepthook (ida_excepthook g) ipython_excepthook"

definition wrap_displayhook :: "globals \<Rightarrow> hook \<Rightarrow> hook" where
  "wrap_displayhook g ipython_displayhook = Ipyida_displayhook (ida_displayhook g) ipython_displayhook"

subsection \<open>\<open>IPythonKernel\<close> (lines 100--179)\<close>

record ipython_kernel =
  priv_timer :: pyval
    \<comment> \<open>\<open>self._timer\<close>\<close>
  connection_file :: "string option"

text \<open>\<open>__init__\<close>\<close>

definition init :: "env \<Rightarrow> ipython_kernel" where
  "init env = \<lparr>priv_timer = PyNone, connection_file = environ env ''JUPYTER_CONNECTION''\<rparr>"

text \<open>\<open>int(x)\<close> of a finite float truncates toward zero.\<close>

definition py_int :: "rat \<Rightarrow> int" where
  "py_int q = (if 0 \<le> q then \<lfloor>q\<rfloor> else \<lceil>q\<rceil>)"

text \<open>\<open>int(1000 * app.kernel._poll_interval)\<close>\<close>

definition poll_ms :: "env \<Rightarrow> world \<Rightarrow> int" where
  "poll_ms env w = py_int (float_mul env 1000 (kernel_poll_interval w))"

text \<open>The body of the timer callback (lines 162--164).\<close>

definition ipython_kernel_iteration :: "env \<Rightarrow> (world, int) py" where
  "ipython_kernel_iteration env =
     py_bind (external Kernel_do_one_iteration (kernel_do_one_iteration env))
       (\<lambda>_ w. (Inr (poll_ms env w), w))"

fun call_callback :: "env \<Rightarrow> callback \<Rightarrow> (world, int) py" where
  "call_callback env Ipython_kernel_iteration = ipython_kernel_iteration env"

text \<open>An assignment to process-wide state; a world computation run by a method.\<close>

definition assign :: "('s \<Rightarrow> 's) \<Rightarrow> ('s, unit) py" where
  "assign f = (\<lambda>s. (Inr (), f s))"

definition on_world :: "(world, 'a) py \<Rightarrow> (ipython_kernel \<times> world, 'a) py" where
  "on_world m = (\<lambda>(self, w). case m w of (r, w') \<Rightarrow> (r, (self, w')))"

definition banner :: "string \<Rightarrow> string" where
  "banner cf =
     ''[ipyida] IPython Kernel initialized! You can connect using: '' @ [CHR 0x0A] @
     ''        '' @ cf"

text \<open>
  The \<open>else\<close> branch of \<open>start\<close> (lines 116--149), taken when the engine singleton
  does not exist yet. \<open>if self.connection_file:\<close> is false for \<open>None\<close> and for the
  empty string.
\<close>

definition first_creation :: "env \<Rightarrow> globals \<Rightarrow> ipython_kernel \<Rightarrow> (world, unit) py" where
  "first_creation env g self =
     py_bind (assign (\<lambda>w. if path_exists env (IPYIDARC_PATH g)
                           then w\<lparr>exec_files := [IPYIDARC_PATH g]\<rparr> else w)) (\<lambda>_.
     py_bind (external (Get_logger ''ipyida_kernel'') (py_return ())) (\<lambda>_.
     py_bind (external (App_instance ''ipyida.kernel.IDATeeOutStream'')
                (app_instance env ''ipyida.kernel.IDATeeOutStream'')) (\<lambda>_.
     py_bind (case connection_file self of
                None \<Rightarrow> external (App_initialize None) (app_initialize env None)
              | Some cf \<Rightarrow>
                  if cf \<noteq> []
                  then external (App_initialize (Some [''-f'', cf]))
                         (app_initialize env (Some [''-f'', cf]))
                  else external (App_initialize None) (app_initialize env None)) (\<lambda>_.
     py_bind (external Logger_set_level (py_return ())) (\<lambda>_.
     py_bind (assign (\<lambda>w. case orig_sys_modules_main_mod w of
                             PyNone \<Rightarrow> w
                           | PyRef m \<Rightarrow>
                               w\<lparr>sys_modules :=
                                    (sys_modules w)(orig_sys_modules_main_name w \<mapsto> PyRef m)\<rparr>)) (\<lambda>_.
     py_bind (assign (\<lambda>w. w\<lparr>sys_excepthook := wrap_excepthook g (sys_excepthook w)\<rparr>)) (\<lambda>_.
     assign (\<lambda>w. w\<lparr>sys_displayhook := wrap_displayhook g (sys_displayhook w)\<rparr>))))))))"

text \<open>
  \<open>start\<close>. With the singleton already there, \<open>IPKernelApp.instance()\<close> only returns
  it. The message printed shows \<open>self.connection_file\<close>, which the statement before
  has just set to \<open>app.connection_file\<close>.
\<close>

definition start :: "env \<Rightarrow> globals \<Rightarrow> (ipython_kernel \<times> world, unit) py" where
  "start env g = (\<lambda>(self, w).
     if priv_timer self \<noteq> PyNone
     then (Inl (Exception ''IPython kernel is already running.''), (self, w))
     else
       (py_bind (on_world (if app_initialized w then py_return ()
                           else first_creation env g self)) (\<lambda>_.
        py_bind (on_world (external Set_completer_frame (set_completer_frame env))) (\<lambda>_.
        py_bind (on_world (external Kernel_start (kernel_start env))) (\<lambda>_.
        py_bind (assign (\<lambda>(self, w).
                   (self\<lparr>connection_file := Some (app_connection_file w)\<rparr>, w))) (\<lambda>_.
        py_bind (\<lambda>(self, w).
                   on_world (external (Print (banner (app_connection_file w)))
                               (print env (banner (app_connection_file w)))) (self, w)) (\<lambda>_.
        if \<not> is_using_ipykernel_5 env
        then
          py_bind (on_world (external Kernel_do_one_iteration
                               (kernel_do_one_iteration env))) (\<lambda>_.
          assign (\<lambda>(self, w).
            (self\<lparr>priv_timer :=
                    register_timer env (poll_ms env w) Ipython_kernel_iteration\<rparr>,
             w\<lparr>trace := trace w @
                    [Register_timer (poll_ms env w) Ipython_kernel_iteration]\<rparr>)))
        else py_return ()))))))
       (self, w))"

definition stop :: "globals \<Rightarrow> (ipython_kernel \<times> world, unit) py" where
  "stop g = (\<lambda>(self, w).
     let w1 = (if priv_timer self \<noteq> PyNone
               then w\<lparr>trace := trace w @ [Unregister_timer (priv_timer self)]\<rparr>
               else w)
     in (Inr (),
         (self\<lparr>priv_timer := PyNone, connection_file := None\<rparr>,
          w1\<lparr>sys_stdout := ida_stdout g, sys_stderr := ida_stderr g\<rparr>)))"

definition started :: "ipython_kernel \<Rightarrow> bool" where
  "started self = (priv_timer self \<noteq> PyNone)"

subsection \<open>Module-level \<open>do_one_iteration\<close> (lines 181--189)\<close>

definition do_one_iteration :: "env \<Rightarrow> (world, unit) py" where
  "do_one_iteration env = (\<lambda>w.
     if is_using_ipykernel_5 env
     then (Inl (Exception ''Should not call this when ipykernel >= 5''), w)
     else if app_initialized w
     then external Kernel_do_one_iteration (kernel_do_one_iteration env) w
     else (Inl (Exception ''Kernel is not initialized''), w))"

subsection \<open>Traces of computations\<close>

text \<open>
  \<open>grows P tr m\<close>: from every state, \<open>m\<close> only appends events to the trace \<open>tr\<close>
  reads, and every event it appends satisfies \<open>P\<close>; this holds whether \<open>m\<close> returns
  or raises.
\<close>

definition grows :: "(event \<Rightarrow> bool) \<Rightarrow> ('s \<Rightarrow> event list) \<Rightarrow> ('s, 'a) py \<Rightarrow> bool" where
  "grows P tr m = (\<forall>s. \<exists>evs. tr (snd (m s)) = tr s @ evs \<and> list_all P evs)"

fun runloop_event :: "event \<Rightarrow> bool" where
  "runloop_event Kernel_do_one_iteration = True"
| "runloop_event (Register_timer ms cb) = True"
| "runloop_event e = False"

fun initialize_event :: "event \<Rightarrow> bool" where
  "initialize_event (App_initialize argv) = True"
| "initialize_event e = False"

subsection \<open>A fake host and a fake engine\<close>

text \<open>
  A host whose console streams are objects 1 and 2, whose hooks are callables 3 and 4
  and whose \<open>__main__\<close> module (object 5) keeps the pre-override streams 6 and 7; no
  engine exists yet.
\<close>

definition fake_world :: world where
  "fake_world =
     \<lparr>sys_stdout = PyRef 1, sys_stderr = PyRef 2, sys_dunder_stdout = PyNone,
      sys_excepthook = Builtin 3, sys_displayhook = Builtin 4,
      sys_modules = [''__main__'' \<mapsto> PyRef 5],
      module_attrs = (\<lambda>m. if m = 5 then [''_orig_stdout'' \<mapsto> PyRef 6,
                                           ''_orig_stderr'' \<mapsto> PyRef 7]
                          else Map.empty),
      exec_files = [], app_initialized = False, app_connection_file = [],
      kernel_poll_interval = 0, orig_sys_modules_main_mod = PyNone,
      orig_sys_modules_main_name = ''__main__'', trace = []\<rparr>"

text \<open>
  An engine that requires manual iteration and reports the poll interval \<open>p\<close>; its
  \<open>initialize\<close> installs the streams 10 and 11 and the hooks 12 and 13 and binds to the
  connection file it is given, or allocates \<open>kernel-1.json\<close>. Nothing raises, every
  object is true, floats multiply exactly, and the scheduler hands out the handle 20.
\<close>

definition fake_env :: "rat \<Rightarrow> env" where
  "fake_env p =
     \<lparr>kernel_has_process_one = False,
      environ = [''JUPYTER_CONNECTION'' \<mapsto> ''conn.json''],
      path_exists = (\<lambda>f. False),
      ipyidarc_path = ''ipyidarc.py'',
      fileno = (\<lambda>f. - 1),
      devnull_file = 8,
      obj_truthy = (\<lambda>r. True),
      float_mul = (\<lambda>a b. a * b),
      sink_write = (\<lambda>r s. py_return ()),
      engine_write = (\<lambda>n s. py_return ()),
      hook_body = (\<lambda>f args. py_return ()),
      super_setup_stream_redirects = (\<lambda>n. py_return PyNone),
      app_instance = (\<lambda>c. assign (\<lambda>w. w\<lparr>app_initialized := True\<rparr>)),
      app_initialize = (\<lambda>argv. assign (\<lambda>w.
        w\<lparr>sys_stdout := PyRef 10, sys_stderr := PyRef 11,
          sys_excepthook := Builtin 12, sys_displayhook := Builtin 13,
          app_connection_file := (case argv of Some [f, cf] \<Rightarrow> cf | _ \<Rightarrow> ''kernel-1.json''),
          kernel_poll_interval := p\<rparr>)),
      set_completer_frame = py_return (),
      kernel_start = py_return (),
      kernel_do_one_iteration = py_return (),
      print = (\<lambda>s. py_return ()),
      register_timer = (\<lambda>ms cb. PyRef 20)\<rparr>"

definition fake_globals :: globals where
  "fake_globals = fst (module_load (fake_env (1 / 20)) fake_world)"

section \<open>Properties\<close>

subsection \<open>Stepping through computations\<close>

lemma py_bind_Inr_iff:
  "py_bind m f s = (Inr v, s') \<longleftrightarrow> (\<exists>u s1. m s = (Inr u, s1) \<and> f u s1 = (Inr v, s'))"
  by (auto simp: py_bind_def split: prod.splits sum.splits)

lemma on_world_iff:
  "on_world m (self, w) = (r, (self', w')) \<longleftrightarrow> self' = self \<and> m w = (r, w')"
  by (auto simp: on_world_def split: prod.splits)

lemma trace_external: "trace (snd (external ev f w)) = trace w @ [ev]"
  by (simp add: external_def split: prod.splits)

lemma external_traceD: "external ev f w = (r, w') \<Longrightarrow> trace w' = trace w @ [ev]"
  by (auto simp: external_def split: prod.splits)

lemma grows_return: "grows P tr (py_return v)"
  by (simp add: grows_def py_return_def)

lemma grows_assign: "(\<And>s. tr (f s) = tr s) \<Longrightarrow> grows P tr (assign f)"
  by (simp add: grows_def assign_def)

lemma grows_external: "P ev \<Longrightarrow> grows P trace (external ev f)"
  by (simp add: grows_def external_def split: prod.splits)

lemma grows_on_world:
  assumes "grows P trace m"
  shows "grows P (\<lambda>s. trace (snd s)) (on_world m)"
  unfolding grows_def
proof
  fix s :: "ipython_kernel \<times> world"
  obtain k w where s: "s = (k, w)" by (cases s)
  obtain r w' where mw: "m w = (r, w')" by (cases "m w")
  from assms obtain evs where "trace (snd (m w)) = trace w @ evs" "list_all P evs"
    unfolding grows_def by blast
  then show "\<exists>evs. trace (snd (snd (on_world m s))) = trace (snd s) @ evs \<and> list_all P evs"
    by (simp add: s mw on_world_def)
qed

lemma grows_bind:
  assumes m: "grows P tr m" and f: "\<And>v. grows P tr (f v)"
  shows "grows P tr (py_bind m f)"
  unfolding grows_def
proof
  fix s
  obtain r s1 where ms: "m s = (r, s1)" by (cases "m s")
  from m obtain e1 where e1: "tr s1 = tr s @ e1" "list_all P e1"
    unfolding grows_def using ms by (metis snd_conv)
  show "\<exists>evs. tr (snd (py_bind m f s)) = tr s @ evs \<and> list_all P evs"
  proof (cases r)
    case (Inl e)
    then show ?thesis using ms e1 by (simp add: py_bind_def)
  next
    case (Inr v)
    from f[of v] obtain e2 where "tr (snd (f v s1)) = tr s1 @ e2" "list_all P e2"
      unfolding grows_def by blast
    then show ?thesis using Inr ms e1 by (simp add: py_bind_def)
  qed
qed

lemma growsD: "grows P tr m \<Longrightarrow> \<exists>evs. tr (snd (m s)) = tr s @ evs \<and> list_all P evs"
  by (simp add: grows_def)

lemma first_creation_grows:
  assumes "P (Get_logger ''ipyida_kernel'')" "P (App_instance ''ipyida.kernel.IDATeeOutStream'')"
    "P Logger_set_level"
    "P (App_initialize (case connection_file self of None \<Rightarrow> None
          | Some cf \<Rightarrow> if cf \<noteq> [] then Some [''-f'', cf] else None))"
  shows "grows P trace (first_creation env g self)"
  unfolding first_creation_def using assms
  by (intro grows_bind grows_assign grows_external grows_return)
     (auto split: option.splits pyval.splits intro: grows_external)

text \<open>The steps of a \<open>start\<close> that returns, when the engine needs manual iteration.\<close>

lemma start_success_steps:
  assumes "start env g (self, w) = (Inr (), (self', w'))" and "\<not> is_using_ipykernel_5 env"
  obtains w1 w2 w3 w5 w6 where
    "(if app_initialized w then py_return () else first_creation env g self) w = (Inr (), w1)"
    "external Set_completer_frame (set_completer_frame env) w1 = (Inr (), w2)"
    "external Kernel_start (kernel_start env) w2 = (Inr (), w3)"
    "external (Print (banner (app_connection_file w3)))
       (print env (banner (app_connection_file w3))) w3 = (Inr (), w5)"
    "external Kernel_do_one_iteration (kernel_do_one_iteration env) w5 = (Inr (), w6)"
    "self' = self\<lparr>connection_file := Some (app_connection_file w3),
                   priv_timer := register_timer env (poll_ms env w6) Ipython_kernel_iteration\<rparr>"
    "w' = w6\<lparr>trace := trace w6 @ [Register_timer (poll_ms env w6) Ipython_kernel_iteration]\<rparr>"
proof -
  have t: "priv_timer self = PyNone"
    using assms(1) by (auto simp: start_def split: if_splits)
  show ?thesis
    using assms t that
    by (auto simp: start_def py_bind_Inr_iff assign_def on_world_iff)
qed

lemma grows_append: "(\<And>s. \<exists>evs. tr (f s) = tr s @ evs \<and> list_all P evs) \<Longrightarrow> grows P tr (assign f)"
  by (simp add: grows_def assign_def)

lemma grows_dep: "(\<And>t. grows P tr (m t)) \<Longrightarrow> grows P tr (\<lambda>s. m s s)"
  by (simp add: grows_def)

lemma grows_print:
  assumes "\<And>s. P (Print s)"
  shows "grows P (\<lambda>s. trace (snd s))
     (\<lambda>(self, w). on_world (external (Print (banner (app_connection_file w)))
                               (print env (banner (app_connection_file w)))) (self, w))"
proof -
  have "grows P (\<lambda>s. trace (snd s))
     (\<lambda>s. on_world (external (Print (banner (app_connection_file (snd s))))
                               (print env (banner (app_connection_file (snd s))))) s)"
    by (rule grows_dep) (intro grows_on_world grows_external assms)
  then show ?thesis by (simp add: split_def)
qed

lemma py_bind_after:
  assumes "\<And>v. grows P tr (f v)"
  shows "\<exists>evs. tr (snd (py_bind m f s)) = tr (snd (m s)) @ evs \<and> list_all P evs"
proof -
  obtain r s1 where ms: "m s = (r, s1)" by (cases "m s")
  show ?thesis
  proof (cases r)
    case (Inl e)
    then show ?thesis using ms by (simp add: py_bind_def)
  next
    case (Inr v)
    then show ?thesis using ms growsD[OF assms, of v s1] by (simp add: py_bind_def)
  qed
qed

lemma grows_tail:
  assumes P: "\<And>e. \<not> initialize_event e \<Longrightarrow> P e"
  shows "grows P (\<lambda>s. trace (snd s))
        (if \<not> is_using_ipykernel_5 env
        then
          py_bind (on_world (external Kernel_do_one_iteration
                               (kernel_do_one_iteration env))) (\<lambda>_.
          assign (\<lambda>(self, w).
            (self\<lparr>priv_timer :=
                    register_timer env (poll_ms env w) Ipython_kernel_iteration\<rparr>,
             w\<lparr>trace := trace w @
                    [Register_timer (poll_ms env w) Ipython_kernel_iteration]\<rparr>)))
        else py_return ())"
proof (cases "is_using_ipykernel_5 env")
  case True
  then show ?thesis by (simp add: grows_return)
next
  case False
  have a: "grows P (\<lambda>s. trace (snd s))
          (assign (\<lambda>(self, w).
            (self\<lparr>priv_timer :=
                    register_timer env (poll_ms env w) Ipython_kernel_iteration\<rparr>,
             w\<lparr>trace := trace w @
                    [Register_timer (poll_ms env w) Ipython_kernel_iteration]\<rparr>)))"
    by (rule grows_append) (simp add: split_def P)
  have "grows P (\<lambda>s. trace (snd s))
          (py_bind (on_world (external Kernel_do_one_iteration
                               (kernel_do_one_iteration env))) (\<lambda>_.
          assign (\<lambda>(self, w).
            (self\<lparr>priv_timer :=
                    register_timer env (poll_ms env w) Ipython_kernel_iteration\<rparr>,
             w\<lparr>trace := trace w @
                    [Register_timer (poll_ms env w) Ipython_kernel_iteration]\<rparr>))))"
    by (intro grows_bind grows_on_world grows_external P a) simp
  then show ?thesis
    using False by simp
qed

text \<open>\<open>start\<close> past the already-running check.\<close>

lemma start_unstarted:
  "priv_timer self = PyNone \<Longrightarrow> start env g (self, w) =
       (py_bind (on_world (if app_initialized w then py_return ()
                           else first_creation env g self)) (\<lambda>_.
        py_bind (on_world (external Set_completer_frame (set_completer_frame env))) (\<lambda>_.
        py_bind (on_world (external Kernel_start (kernel_start env))) (\<lambda>_.
        py_bind (assign (\<lambda>(self, w).
                   (self\<lparr>connection_file := Some (app_connection_file w)\<rparr>, w))) (\<lambda>_.
        py_bind (\<lambda>(self, w).
                   on_world (external (Print (banner (app_connection_file w)))
                               (print env (banner (app_connection_file w)))) (self, w)) (\<lambda>_.
        if \<not> is_using_ipykernel_5 env
        then
          py_bind (on_world (external Kernel_do_one_iteration
                               (kernel_do_one_iteration env))) (\<lambda>_.
          assign (\<lambda>(self, w).
            (self\<lparr>priv_timer :=
                    register_timer env (poll_ms env w) Ipython_kernel_iteration\<rparr>,
             w\<lparr>trace := trace w @
                    [Register_timer (poll_ms env w) Ipython_kernel_iteration]\<rparr>)))
        else py_return ()))))))
       (self, w)"
  by (simp add: start_def)

lemma start_after_first_creation:
  assumes "priv_timer self = PyNone" "\<not> app_initialized w"
    and P: "\<And>e. \<not> initialize_event e \<Longrightarrow> P e"
  shows "\<exists>evs. trace (snd (snd (start env g (self, w)))) =
           trace (snd (first_creation env g self w)) @ evs \<and> list_all P evs"
proof -
  have fc: "trace (snd (first_creation env g self w)) =
        (\<lambda>s. trace (snd s)) (snd (on_world (first_creation env g self) (self, w)))"
    by (simp add: on_world_def split: prod.splits)
  show ?thesis
    unfolding start_unstarted[OF assms(1)] fc using assms(2)
    apply (simp only: if_False)
    apply (rule py_bind_after)
    apply (intro grows_bind grows_on_world grows_external grows_print grows_tail grows_assign P)
    apply (simp_all add: split_def)
    done
qed

lemma start_grows:
  assumes P: "\<And>e. \<not> initialize_event e \<Longrightarrow> P e"
    and Pi: "P (App_initialize (case connection_file self of None \<Rightarrow> None
          | Some cf \<Rightarrow> if cf \<noteq> [] then Some [''-f'', cf] else None))"
  shows "\<exists>evs. trace (snd (snd (start env g (self, w)))) = trace w @ evs \<and> list_all P evs"
proof (cases "priv_timer self = PyNone")
  case False
  then show ?thesis by (simp add: start_def)
next
  case True
  have "grows P (\<lambda>s. trace (snd s)) (py_bind (on_world (if app_initialized w then py_return ()
                           else first_creation env g self)) (\<lambda>_.
        py_bind (on_world (external Set_completer_frame (set_completer_frame env))) (\<lambda>_.
        py_bind (on_world (external Kernel_start (kernel_start env))) (\<lambda>_.
        py_bind (assign (\<lambda>(self, w).
                   (self\<lparr>connection_file := Some (app_connection_file w)\<rparr>, w))) (\<lambda>_.
        py_bind (\<lambda>(self, w).
                   on_world (external (Print (banner (app_connection_file w)))
                               (print env (banner (app_connection_file w)))) (self, w)) (\<lambda>_.
        if \<not> is_using_ipykernel_5 env
        then
          py_bind (on_world (external Kernel_do_one_iteration
                               (kernel_do_one_iteration env))) (\<lambda>_.
          assign (\<lambda>(self, w).
            (self\<lparr>priv_timer :=
                    register_timer env (poll_ms env w) Ipython_kernel_iteration\<rparr>,
             w\<lparr>trace := trace w @
                    [Register_timer (poll_ms env w) Ipython_kernel_iteration]\<rparr>)))
        else py_return ()))))))"
    apply (intro grows_bind grows_on_world grows_external grows_print grows_tail grows_assign P)
    apply (simp_all add: split_def P grows_return first_creation_grows Pi)
    done
  from growsD[OF this, of "(self, w)"] show ?thesis
    unfolding start_unstarted[OF True] by simp
qed

text \<open>The first three calls of \<open>first_creation\<close>, when creating the singleton succeeds.\<close>

lemma first_creation_prefix:
  assumes "\<forall>v. fst (app_instance env ''ipyida.kernel.IDATeeOutStream'' v) = Inr ()"
  shows "\<exists>evs. trace (snd (first_creation env g self w)) =
           trace w @ [Get_logger ''ipyida_kernel'', App_instance ''ipyida.kernel.IDATeeOutStream'',
             App_initialize (case connection_file self of None \<Rightarrow> None
                | Some cf \<Rightarrow> if cf \<noteq> [] then Some [''-f'', cf] else None)] @ evs"
proof -
  let ?w1 = "(if path_exists env (IPYIDARC_PATH g) then w\<lparr>exec_files := [IPYIDARC_PATH g]\<rparr> else w)
      \<lparr>trace := trace w @ [Get_logger ''ipyida_kernel'']\<rparr>"
  obtain r w2 where i: "app_instance env ''ipyida.kernel.IDATeeOutStream'' ?w1 = (r, w2)"
    by (cases "app_instance env ''ipyida.kernel.IDATeeOutStream'' ?w1")
  with assms have r: "r = Inr ()" by (metis fst_conv)
  let ?argv = "case connection_file self of None \<Rightarrow> None
                | Some cf \<Rightarrow> if cf \<noteq> [] then Some [''-f'', cf] else None"
  let ?w2 = "w2\<lparr>trace := trace w @ [Get_logger ''ipyida_kernel'', App_instance ''ipyida.kernel.IDATeeOutStream'']\<rparr>"
  obtain r3 w3 where j: "app_initialize env ?argv ?w2 = (r3, w3)"
    by (cases "app_initialize env ?argv ?w2")
  show ?thesis
    using i r j
    by (cases r3; cases "connection_file self")
      (auto simp: first_creation_def py_bind_def assign_def external_def py_return_def
        split: pyval.splits)
qed

lemma fake_globals_simp:
  "fake_globals = \<lparr>ida_stdout = PyRef 1, ida_stderr = PyRef 2, IPYIDARC_PATH = ''ipyidarc.py'',
                     ida_excepthook = Builtin 3, ida_displayhook = Builtin 4\<rparr>"
  by (simp add: fake_globals_def module_load_def fake_world_def fake_env_def)

text \<open>A complete run of \<open>start\<close> on the fake engine, with a poll interval of 50 ms.\<close>

lemmas fake_run =
  start_def init_def fake_env_def fake_world_def fake_globals_simp first_creation_def
  py_bind_def on_world_def assign_def py_return_def external_def is_using_ipykernel_5_def
  poll_ms_def py_int_def wrap_excepthook_def wrap_displayhook_def floor_eq_iff

lemma fake_start:
  "start (fake_env (1 / 20)) fake_globals (init (fake_env (1 / 20)), fake_world) =
    (Inr (), (\<lparr>priv_timer = PyRef 20, connection_file = Some ''conn.json''\<rparr>,
      fake_world\<lparr>sys_stdout := PyRef 10, sys_stderr := PyRef 11,
          sys_excepthook := Ipyida_excepthook (Builtin 3) (Builtin 12),
          sys_displayhook := Ipyida_displayhook (Builtin 4) (Builtin 13),
          app_initialized := True,
          app_connection_file := ''conn.json'',
          kernel_poll_interval := 1 / 20,
          trace := [Get_logger ''ipyida_kernel'', App_instance ''ipyida.kernel.IDATeeOutStream'',
      App_initialize (Some [''-f'', ''conn.json'']), Logger_set_level, Set_completer_frame,
      Kernel_start, Print (banner ''conn.json''), Kernel_do_one_iteration,
      Register_timer 50 Ipython_kernel_iteration]\<rparr>))"
  by (simp add: fake_run)

subsection \<open>The stream tee\<close>

text \<open>
  C1 claims that, with the saved host stream of the role present, the host stream and
  then the engine's write receive every string written. A saved stream that is there
  but false (an empty container, say) is skipped: only the engine's write is called.
  A saved stream whose \<open>write\<close> raises stops the write: the engine's write is not
  called.
\<close>

theorem tee_write_forwards_counterexample:
  "ida_stderr fake_globals = PyRef 2
 \<and> trace (snd (tee_write ((fake_env (1 / 20))\<lparr>obj_truthy := \<lambda>r. r \<noteq> 2\<rparr>)
          fake_globals \<lparr>name = ''stderr''\<rparr> ''e'' fake_world)) = [Engine_write ''stderr'' ''e'']
 \<and> trace (snd (tee_write
          ((fake_env (1 / 20))\<lparr>sink_write := \<lambda>r s. if r = 2 then py_raise (Foreign 1)
                                                  else py_return ()\<rparr>)
          fake_globals \<lparr>name = ''stderr''\<rparr> ''e'' fake_world)) = [Sink_write 2 ''e'']"
  by (simp add: tee_write_def fake_globals_simp fake_env_def py_bind_def py_raise_def
      py_return_def super_write_def external_def fake_world_def)

text \<open>
  C1, amended. For every string written through \<open>IDATeeOutStream.write\<close> while the saved
  host stream of the instance's role is present and true: the first call made is the
  host stream's \<open>write\<close>, with exactly that string; and when that call returns, the
  engine's write is called next with the same string, and nothing else is called. The
  instance named \<open>stdout\<close> forwards to \<open>_ida_stdout\<close>, the one named \<open>stderr\<close> to
  \<open>_ida_stderr\<close>.
\<close>

theorem tee_write_forwards:
  assumes role: "name self = ''stdout'' \<and> ida_stdout g = PyRef r
               \<or> name self = ''stderr'' \<and> ida_stderr g = PyRef r"
    and true: "obj_truthy env r"
  shows "take (Suc (length (trace w))) (trace (snd (tee_write env g self s w))) =
           trace w @ [Sink_write r s]
       \<and> (fst (sink_write env r s w) = Inr () \<longrightarrow>
            trace (snd (tee_write env g self s w)) =
              trace w @ [Sink_write r s, Engine_write (name self) s])"
  using assms
  by (auto simp: tee_write_def py_bind_def super_write_def external_def
      split: prod.splits sum.splits)

theorem tee_write_forwards_witness:
  "trace (snd (tee_write (fake_env (1 / 20)) fake_globals \<lparr>name = ''stdout''\<rparr> ''hello''
                 fake_world)) =
     [Sink_write 1 ''hello'', Engine_write ''stdout'' ''hello'']
 \<and> trace (snd (tee_write (fake_env (1 / 20)) fake_globals \<lparr>name = ''stderr''\<rparr> ''oops!''
                 fake_world)) =
     [Sink_write 2 ''oops!'', Engine_write ''stderr'' ''oops!'']"
  using tee_write_forwards [where self = "\<lparr>name = ''stdout''\<rparr>" and g = fake_globals and r = 1
      and env = "fake_env (1 / 20)" and s = "''hello''" and w = fake_world]
    tee_write_forwards [where self = "\<lparr>name = ''stderr''\<rparr>" and g = fake_globals and r = 2
      and env = "fake_env (1 / 20)" and s = "''oops!''" and w = fake_world]
  by (simp add: fake_globals_simp fake_env_def py_return_def fake_world_def)

text \<open>
  C5 claims that a failing host stream neither stops the engine's write nor lets an
  exception out. With a host stream whose \<open>write\<close> raises, \<open>IDATeeOutStream.write\<close>
  raises that exception and the engine's write is never called.
\<close>

theorem tee_write_host_failure_counterexample:
  "fst (tee_write ((fake_env (1 / 20))\<lparr>sink_write := \<lambda>r s. py_raise (Foreign 0)\<rparr>)
          fake_globals \<lparr>name = ''stdout''\<rparr> ''x'' fake_world) = Inl (Foreign 0)
 \<and> trace (snd (tee_write ((fake_env (1 / 20))\<lparr>sink_write := \<lambda>r s. py_raise (Foreign 0)\<rparr>)
          fake_globals \<lparr>name = ''stdout''\<rparr> ''x'' fake_world)) = [Sink_write 1 ''x'']"
  by (simp add: tee_write_def fake_globals_simp fake_env_def py_bind_def py_raise_def
      external_def fake_world_def)

text \<open>
  C5, amended. A saved host stream that is \<open>None\<close> or false is skipped: then the write
  is the engine's write alone, and forwarding cannot fail. When the saved host stream
  is true and its \<open>write\<close> raises, the exception propagates out of
  \<open>IDATeeOutStream.write\<close> and the engine's write is not performed.
\<close>

theorem tee_write_host_failure:
  assumes role: "name self = ''stdout'' \<and> ida_stdout g = sink
               \<or> name self = ''stderr'' \<and> ida_stderr g = sink"
  shows "(\<not> truthy env sink \<longrightarrow> tee_write env g self s w = super_write env self s w)
       \<and> (sink = PyRef r \<and> obj_truthy env r \<and> sink_write env r s w = (Inl e, w') \<longrightarrow>
            tee_write env g self s w = (Inl e, w'\<lparr>trace := trace w @ [Sink_write r s]\<rparr>))"
  using assms
  by (auto simp: tee_write_def py_bind_def py_return_def super_write_def external_def
      split: prod.splits sum.splits)

theorem tee_write_host_failure_witness:
  "tee_write (fake_env (1 / 20)) (fake_globals\<lparr>ida_stderr := PyNone\<rparr>) \<lparr>name = ''stderr''\<rparr>
     ''x'' fake_world =
     super_write (fake_env (1 / 20)) \<lparr>name = ''stderr''\<rparr> ''x'' fake_world
 \<and> tee_write ((fake_env (1 / 20))\<lparr>obj_truthy := \<lambda>r. False\<rparr>) fake_globals
     \<lparr>name = ''stdout''\<rparr> ''x'' fake_world =
     super_write ((fake_env (1 / 20))\<lparr>obj_truthy := \<lambda>r. False\<rparr>) \<lparr>name = ''stdout''\<rparr> ''x''
       fake_world
 \<and> tee_write ((fake_env (1 / 20))\<lparr>sink_write := \<lambda>r s. py_raise (Foreign 0)\<rparr>)
          fake_globals \<lparr>name = ''stdout''\<rparr> ''x'' fake_world =
     (Inl (Foreign 0), fake_world\<lparr>trace := trace fake_world @ [Sink_write 1 ''x'']\<rparr>)"
  using tee_write_host_failure [where self = "\<lparr>name = ''stderr''\<rparr>"
      and g = "fake_globals\<lparr>ida_stderr := PyNone\<rparr>" and sink = PyNone
      and env = "fake_env (1 / 20)" and s = "''x''" and w = fake_world]
    tee_write_host_failure [where self = "\<lparr>name = ''stdout''\<rparr>" and g = fake_globals
      and sink = "PyRef 1" and env = "(fake_env (1 / 20))\<lparr>obj_truthy := \<lambda>r. False\<rparr>"
      and s = "''x''" and w = fake_world]
    tee_write_host_failure [where self = "\<lparr>name = ''stdout''\<rparr>" and g = fake_globals
      and sink = "PyRef 1" and r = 1
      and env = "(fake_env (1 / 20))\<lparr>sink_write := \<lambda>r s. py_raise (Foreign 0)\<rparr>"
      and s = "''x''" and w = fake_world and e = "Foreign 0" and w' = fake_world]
  by (simp add: fake_globals_simp fake_env_def py_raise_def)

subsection \<open>The hook wrappers\<close>

text \<open>
  C7 claims that, whatever the arguments, the saved host callable is called first and
  the callable given second. On arguments on which the host callable raises, the
  callable given (13 here) is not called at all.
\<close>

theorem wrapped_hook_order_counterexample:
  "fst (call_hook ((fake_env (1 / 20))\<lparr>hook_body := \<lambda>f args. if f = 4 then py_raise (Foreign 1)
                                                     else py_return ()\<rparr>)
          (wrap_displayhook fake_globals (Builtin 13)) [PyRef 40] fake_world) = Inl (Foreign 1)
 \<and> trace (snd (call_hook ((fake_env (1 / 20))\<lparr>hook_body := \<lambda>f args. if f = 4 then py_raise (Foreign 1)
                                                     else py_return ()\<rparr>)
          (wrap_displayhook fake_globals (Builtin 13)) [PyRef 40] fake_world)) =
     [Hook_call 4 [PyRef 40]]"
  by (simp add: wrap_displayhook_def fake_globals_simp fake_env_def py_raise_def external_def
      fake_world_def)

text \<open>
  C7, amended. A callable built by \<open>wrap_excepthook\<close> or \<open>wrap_displayhook\<close>, called with
  any positional arguments, calls the saved host callable first, with those arguments,
  and, when that call returns, the callable it was given second, with the same
  arguments: the wrapper is the sequence of the two calls. For a host callable that is
  a plain function, the first call made is always its call, and when it returns the
  calls made are exactly the two, in this order.
\<close>

theorem wrapped_hook_order:
  "call_hook env (wrap_excepthook g new) args w =
     py_bind (call_hook env (ida_excepthook g) args) (\<lambda>u. call_hook env new args) w
 \<and> call_hook env (wrap_displayhook g new) args w =
     py_bind (call_hook env (ida_displayhook g) args) (\<lambda>u. call_hook env new args) w
 \<and> (ida_excepthook g = Builtin a \<longrightarrow>
       take (Suc (length (trace w)))
         (trace (snd (call_hook env (wrap_excepthook g (Builtin b)) args w))) =
           trace w @ [Hook_call a args]
     \<and> (fst (hook_body env a args w) = Inr () \<longrightarrow>
           trace (snd (call_hook env (wrap_excepthook g (Builtin b)) args w)) =
             trace w @ [Hook_call a args, Hook_call b args]))
 \<and> (ida_displayhook g = Builtin d \<longrightarrow>
       take (Suc (length (trace w)))
         (trace (snd (call_hook env (wrap_displayhook g (Builtin b)) args w))) =
           trace w @ [Hook_call d args]
     \<and> (fst (hook_body env d args w) = Inr () \<longrightarrow>
           trace (snd (call_hook env (wrap_displayhook g (Builtin b)) args w)) =
             trace w @ [Hook_call d args, Hook_call b args]))"
  by (auto simp: wrap_excepthook_def wrap_displayhook_def py_bind_def external_def
      split: prod.splits sum.splits)

theorem wrapped_hook_order_witness:
  "trace (snd (call_hook (fake_env (1 / 20)) (wrap_excepthook fake_globals (Builtin 12))
                 [PyRef 30, PyRef 31, PyRef 32] fake_world)) =
     [Hook_call 3 [PyRef 30, PyRef 31, PyRef 32], Hook_call 12 [PyRef 30, PyRef 31, PyRef 32]]
 \<and> trace (snd (call_hook (fake_env (1 / 20)) (wrap_displayhook fake_globals (Builtin 12))
                 [PyRef 30, PyRef 31, PyRef 32] fake_world)) =
     [Hook_call 4 [PyRef 30, PyRef 31, PyRef 32], Hook_call 12 [PyRef 30, PyRef 31, PyRef 32]]"
  using wrapped_hook_order [where g = fake_globals and a = 3 and d = 4 and env = "fake_env (1 / 20)"
      and args = "[PyRef 30, PyRef 31, PyRef 32]" and w = fake_world and b = 12
      and new = "Builtin 12"]
  by (simp add: fake_globals_simp fake_env_def py_return_def fake_world_def py_bind_def
      external_def wrap_excepthook_def wrap_displayhook_def)

text \<open>
  C6 claims that both callables have been invoked even when the earlier one raises.
  With a host hook that raises, the wrapper raises the same exception and the engine's
  hook (callable 12) is never called.
\<close>

theorem wrapped_hook_previous_raises_counterexample:
  "fst (call_hook ((fake_env (1 / 20))\<lparr>hook_body := \<lambda>f args. if f = 3 then py_raise (Foreign 0)
                                                     else py_return ()\<rparr>)
          (wrap_excepthook fake_globals (Builtin 12)) [PyRef 30, PyRef 31] fake_world) =
     Inl (Foreign 0)
 \<and> trace (snd (call_hook ((fake_env (1 / 20))\<lparr>hook_body := \<lambda>f args. if f = 3 then py_raise (Foreign 0)
                                                     else py_return ()\<rparr>)
          (wrap_excepthook fake_globals (Builtin 12)) [PyRef 30, PyRef 31] fake_world)) =
     [Hook_call 3 [PyRef 30, PyRef 31]]"
  by (simp add: wrap_excepthook_def fake_globals_simp fake_env_def py_raise_def external_def
      fake_world_def)

text \<open>
  C6, amended. For every pair \<open>(x, y)\<close>: when the saved host callable returns, the
  wrapper goes on to call the new callable with \<open>(x, y)\<close>, in the state the host callable
  left, so both have been invoked with \<open>(x, y)\<close>; when the saved host callable raises,
  the wrapper raises the same exception at once, and the new callable is not invoked.
\<close>

theorem wrapped_hook_best_effort:
  "(call_hook env (ida_excepthook g) [x, y] w = (Inr (), w') \<longrightarrow>
      call_hook env (wrap_excepthook g new) [x, y] w = call_hook env new [x, y] w')
 \<and> (call_hook env (ida_excepthook g) [x, y] w = (Inl e, w') \<longrightarrow>
      call_hook env (wrap_excepthook g new) [x, y] w = (Inl e, w'))
 \<and> (call_hook env (ida_displayhook g) [x, y] w = (Inr (), w') \<longrightarrow>
      call_hook env (wrap_displayhook g new) [x, y] w = call_hook env new [x, y] w')
 \<and> (call_hook env (ida_displayhook g) [x, y] w = (Inl e, w') \<longrightarrow>
      call_hook env (wrap_displayhook g new) [x, y] w = (Inl e, w'))"
  by (simp add: wrap_excepthook_def wrap_displayhook_def)

theorem wrapped_hook_best_effort_witness:
  "call_hook (fake_env (1 / 20)) (wrap_excepthook fake_globals (Builtin 12)) [PyRef 30, PyRef 31]
     fake_world =
   call_hook (fake_env (1 / 20)) (Builtin 12) [PyRef 30, PyRef 31]
     (fake_world\<lparr>trace := [Hook_call 3 [PyRef 30, PyRef 31]]\<rparr>)
 \<and> call_hook ((fake_env (1 / 20))\<lparr>hook_body := \<lambda>f args. py_raise (Foreign 0)\<rparr>)
     (wrap_excepthook fake_globals (Builtin 12)) [PyRef 30, PyRef 31] fake_world =
   (Inl (Foreign 0), fake_world\<lparr>trace := [Hook_call 3 [PyRef 30, PyRef 31]]\<rparr>)
 \<and> call_hook (fake_env (1 / 20)) (wrap_displayhook fake_globals (Builtin 13)) [PyRef 30, PyRef 31]
     fake_world =
   call_hook (fake_env (1 / 20)) (Builtin 13) [PyRef 30, PyRef 31]
     (fake_world\<lparr>trace := [Hook_call 4 [PyRef 30, PyRef 31]]\<rparr>)
 \<and> call_hook ((fake_env (1 / 20))\<lparr>hook_body := \<lambda>f args. py_raise (Foreign 0)\<rparr>)
     (wrap_displayhook fake_globals (Builtin 13)) [PyRef 30, PyRef 31] fake_world =
   (Inl (Foreign 0), fake_world\<lparr>trace := [Hook_call 4 [PyRef 30, PyRef 31]]\<rparr>)"
  using wrapped_hook_best_effort [where env = "fake_env (1 / 20)" and g = fake_globals
      and x = "PyRef 30" and y = "PyRef 31" and w = fake_world
      and w' = "fake_world\<lparr>trace := [Hook_call 3 [PyRef 30, PyRef 31]]\<rparr>" and new = "Builtin 12"]
    wrapped_hook_best_effort [where env = "(fake_env (1 / 20))\<lparr>hook_body := \<lambda>f args. py_raise (Foreign 0)\<rparr>"
      and g = fake_globals and x = "PyRef 30" and y = "PyRef 31" and w = fake_world
      and w' = "fake_world\<lparr>trace := [Hook_call 3 [PyRef 30, PyRef 31]]\<rparr>" and new = "Builtin 12"
      and e = "Foreign 0"]
    wrapped_hook_best_effort [where env = "fake_env (1 / 20)" and g = fake_globals
      and x = "PyRef 30" and y = "PyRef 31" and w = fake_world
      and w' = "fake_world\<lparr>trace := [Hook_call 4 [PyRef 30, PyRef 31]]\<rparr>" and new = "Builtin 13"]
    wrapped_hook_best_effort [where env = "(fake_env (1 / 20))\<lparr>hook_body := \<lambda>f args. py_raise (Foreign 0)\<rparr>"
      and g = fake_globals and x = "PyRef 30" and y = "PyRef 31" and w = fake_world
      and w' = "fake_world\<lparr>trace := [Hook_call 4 [PyRef 30, PyRef 31]]\<rparr>" and new = "Builtin 13"
      and e = "Foreign 0"]
  by (simp add: fake_globals_simp fake_env_def py_raise_def py_return_def external_def
      fake_world_def)

subsection \<open>The module-level iteration\<close>

text \<open>
  C8 claims a \<open>Kernel is not initialized\<close> error whenever the engine singleton is not
  initialized. When the engine also manages its own thread, the error raised is the
  other one: the thread check comes first.
\<close>

theorem do_one_iteration_counterexample:
  "\<not> app_initialized fake_world
 \<and> is_using_ipykernel_5 ((fake_env (1 / 20))\<lparr>kernel_has_process_one := True\<rparr>)
 \<and> do_one_iteration ((fake_env (1 / 20))\<lparr>kernel_has_process_one := True\<rparr>) fake_world =
     (Inl (Exception ''Should not call this when ipykernel >= 5''), fake_world)
 \<and> Exception ''Should not call this when ipykernel >= 5'' \<noteq> Exception ''Kernel is not initialized''"
  by (simp add: do_one_iteration_def is_using_ipykernel_5_def fake_env_def fake_world_def)

text \<open>
  C8, amended. \<open>do_one_iteration\<close> raises \<open>Should not call this when ipykernel >= 5\<close>
  whenever the engine manages its own thread; it raises \<open>Kernel is not initialized\<close>
  when the engine does not manage its own thread and the singleton is not initialized;
  otherwise it performs exactly one engine iteration. An iteration is performed only
  when the engine is initialized and does not manage its own thread.
\<close>

theorem do_one_iteration_cases:
  "(is_using_ipykernel_5 env \<longrightarrow>
      do_one_iteration env w = (Inl (Exception ''Should not call this when ipykernel >= 5''), w))
 \<and> (\<not> is_using_ipykernel_5 env \<and> \<not> app_initialized w \<longrightarrow>
      do_one_iteration env w = (Inl (Exception ''Kernel is not initialized''), w))
 \<and> (\<not> is_using_ipykernel_5 env \<and> app_initialized w \<longrightarrow>
      do_one_iteration env w = external Kernel_do_one_iteration (kernel_do_one_iteration env) w
      \<and> trace (snd (do_one_iteration env w)) = trace w @ [Kernel_do_one_iteration])
 \<and> (trace (snd (do_one_iteration env w)) \<noteq> trace w \<longrightarrow>
      \<not> is_using_ipykernel_5 env \<and> app_initialized w)"
  by (auto simp: do_one_iteration_def trace_external)

theorem do_one_iteration_cases_witness:
  "do_one_iteration ((fake_env (1 / 20))\<lparr>kernel_has_process_one := True\<rparr>)
     (fake_world\<lparr>app_initialized := True\<rparr>) =
     (Inl (Exception ''Should not call this when ipykernel >= 5''),
      fake_world\<lparr>app_initialized := True\<rparr>)
 \<and> do_one_iteration (fake_env (1 / 20)) fake_world =
     (Inl (Exception ''Kernel is not initialized''), fake_world)
 \<and> trace (snd (do_one_iteration (fake_env (1 / 20)) (fake_world\<lparr>app_initialized := True\<rparr>))) =
     [Kernel_do_one_iteration]
 \<and> \<not> is_using_ipykernel_5 (fake_env (1 / 20))"
  using do_one_iteration_cases [where env = "(fake_env (1 / 20))\<lparr>kernel_has_process_one := True\<rparr>"
      and w = "fake_world\<lparr>app_initialized := True\<rparr>"]
    do_one_iteration_cases [where env = "fake_env (1 / 20)" and w = fake_world]
    do_one_iteration_cases [where env = "fake_env (1 / 20)" and w = "fake_world\<lparr>app_initialized := True\<rparr>"]
  by (simp add: is_using_ipykernel_5_def fake_env_def fake_world_def trace_external)

subsection \<open>Stream redirection set-up\<close>

text \<open>
  C9. \<open>_setup_stream_redirects\<close> leaves \<open>sys.stdout\<close> and \<open>sys.stderr\<close> as it found them,
  whatever the wrapped step does and whether it returns or raises (or is never
  reached); and when \<open>__main__\<close> holds the pre-override streams, the wrapped step is
  called exactly once, with these two streams active, and its outcome is the
  method's outcome.
\<close>

theorem setup_stream_redirects_restores:
  "sys_stdout (snd (setup_stream_redirects env self nm w)) = sys_stdout w
 \<and> sys_stderr (snd (setup_stream_redirects env self nm w)) = sys_stderr w
 \<and> (sys_modules w ''__main__'' = Some (PyRef m) \<and>
     module_attrs w m ''_orig_stdout'' = Some out \<and>
     module_attrs w m ''_orig_stderr'' = Some err \<longrightarrow>
       trace (snd (setup_stream_redirects env self nm w)) =
         trace w @ [Super_setup_stream_redirects nm out err]
     \<and> fst (setup_stream_redirects env self nm w) =
         fst (super_setup_stream_redirects env nm (w\<lparr>sys_stdout := out, sys_stderr := err\<rparr>)))"
  by (auto simp: setup_stream_redirects_def py_finally_def py_bind_def super_setup_def
      external_def main_attr_def Let_def split: prod.splits sum.splits option.splits pyval.splits)

theorem setup_stream_redirects_restores_witness:
  "sys_stdout (snd (setup_stream_redirects
       ((fake_env (1 / 20))\<lparr>super_setup_stream_redirects := \<lambda>n. py_raise (Foreign 0)\<rparr>)
       \<lparr>name = ''stdout''\<rparr> ''stdout'' fake_world)) = PyRef 1
 \<and> sys_stderr (snd (setup_stream_redirects
       ((fake_env (1 / 20))\<lparr>super_setup_stream_redirects := \<lambda>n. py_raise (Foreign 0)\<rparr>)
       \<lparr>name = ''stdout''\<rparr> ''stdout'' fake_world)) = PyRef 2
 \<and> trace (snd (setup_stream_redirects
       ((fake_env (1 / 20))\<lparr>super_setup_stream_redirects := \<lambda>n. py_raise (Foreign 0)\<rparr>)
       \<lparr>name = ''stdout''\<rparr> ''stdout'' fake_world)) =
     [Super_setup_stream_redirects ''stdout'' (PyRef 6) (PyRef 7)]
 \<and> fst (setup_stream_redirects
       ((fake_env (1 / 20))\<lparr>super_setup_stream_redirects := \<lambda>n. py_raise (Foreign 0)\<rparr>)
       \<lparr>name = ''stdout''\<rparr> ''stdout'' fake_world) = Inl (Foreign 0)"
  using setup_stream_redirects_restores [where
      env = "(fake_env (1 / 20))\<lparr>super_setup_stream_redirects := \<lambda>n. py_raise (Foreign 0)\<rparr>"
      and self = "\<lparr>name = ''stdout''\<rparr>" and nm = "''stdout''" and w = fake_world and m = 5
      and out = "PyRef 6" and err = "PyRef 7"]
  by (simp add: fake_env_def fake_world_def py_raise_def)

subsection \<open>The lifecycle controller\<close>

text \<open>
  C2. \<open>stop\<close> always returns, and after it \<open>sys.stdout\<close> and \<open>sys.stderr\<close> are the
  objects saved in \<open>_ida_stdout\<close> and \<open>_ida_stderr\<close>, which are the objects \<open>sys.stdout\<close>
  and \<open>sys.stderr\<close> were when the module was loaded: after a \<open>start\<close>, whatever the
  engine did and whether that \<open>start\<close> returned or raised, and also when never
  started. The timer handle and the connection file are cleared whatever they were;
  a handle that was set is unregistered with the host scheduler, once, and nothing
  else is called. A second \<open>stop\<close> changes nothing.
\<close>

theorem stop_restores:
  "fst (stop g (self, w)) = Inr ()
 \<and> sys_stdout (snd (snd (stop g (self, w)))) = ida_stdout g
 \<and> sys_stderr (snd (snd (stop g (self, w)))) = ida_stderr g
 \<and> priv_timer (fst (snd (stop g (self, w)))) = PyNone
 \<and> connection_file (fst (snd (stop g (self, w)))) = None
 \<and> trace (snd (snd (stop g (self, w)))) =
      trace w @ (if priv_timer self = PyNone then [] else [Unregister_timer (priv_timer self)])
 \<and> stop g (snd (stop g (self, w))) = (Inr (), snd (stop g (self, w)))
 \<and> sys_stdout (snd (snd (stop g (snd (start env g (self, w)))))) = ida_stdout g
 \<and> sys_stderr (snd (snd (stop g (snd (start env g (self, w)))))) = ida_stderr g
 \<and> ida_stdout (fst (module_load env w0)) = sys_stdout w0
 \<and> ida_stderr (fst (module_load env w0)) = sys_stderr w0"
  by (auto simp: stop_def Let_def module_load_def split: prod.splits pyval.splits)

theorem stop_restores_witness:
  "sys_stdout (snd (snd (stop fake_globals
     (snd (start (fake_env (1 / 20)) fake_globals (init (fake_env (1 / 20)), fake_world)))))) = PyRef 1
 \<and> sys_stderr (snd (snd (stop fake_globals
     (snd (start (fake_env (1 / 20)) fake_globals (init (fake_env (1 / 20)), fake_world)))))) = PyRef 2
 \<and> trace (snd (snd (stop fake_globals
       (\<lparr>priv_timer = PyRef 20, connection_file = Some ''conn.json''\<rparr>, fake_world)))) =
     [Unregister_timer (PyRef 20)]
 \<and> trace (snd (snd (stop fake_globals (init (fake_env (1 / 20)), fake_world)))) = []"
  using stop_restores [where g = fake_globals and env = "fake_env (1 / 20)"
      and self = "init (fake_env (1 / 20))" and w = fake_world]
    stop_restores [where g = fake_globals
      and self = "\<lparr>priv_timer = PyRef 20, connection_file = Some ''conn.json''\<rparr>" and w = fake_world]
  by (simp add: fake_globals_simp init_def fake_world_def)

text \<open>
  Manual-iteration mode. An instance whose timer handle is set refuses to start:
  \<open>start\<close> raises \<open>IPython kernel is already running.\<close> and changes nothing, and no
  collaborator is called. When the engine needs manual iteration and the scheduler
  hands out a handle, a \<open>start\<close> that returned has set the handle, so the \<open>start\<close> after
  it raises so.
\<close>

lemma start_raises_when_handle_set:
  "(started self \<longrightarrow>
      start env g (self, w) = (Inl (Exception ''IPython kernel is already running.''), (self, w)))
 \<and> (\<not> is_using_ipykernel_5 env \<and> (\<forall>ms cb. register_timer env ms cb \<noteq> PyNone) \<and>
     start env g (self, w) = (Inr (), s') \<longrightarrow>
      started (fst s') \<and>
      start env g s' = (Inl (Exception ''IPython kernel is already running.''), s'))"
proof (intro conjI impI)
  assume "started self"
  then show "start env g (self, w) = (Inl (Exception ''IPython kernel is already running.''), (self, w))"
    by (simp add: start_def started_def)
next
  assume a: "\<not> is_using_ipykernel_5 env \<and> (\<forall>ms cb. register_timer env ms cb \<noteq> PyNone) \<and>
     start env g (self, w) = (Inr (), s')"
  obtain self' w' where s': "s' = (self', w')" by (cases s')
  from a s' have st: "start env g (self, w) = (Inr (), (self', w'))"
    and n5: "\<not> is_using_ipykernel_5 env" by simp_all
  from st n5 obtain w6 where
    "self' = self\<lparr>connection_file := connection_file self',
                   priv_timer := register_timer env (poll_ms env w6) Ipython_kernel_iteration\<rparr>"
    by (rule start_success_steps) simp
  then have "priv_timer self' = register_timer env (poll_ms env w6) Ipython_kernel_iteration"
    by (metis ipython_kernel.select_convs(1) ipython_kernel.surjective ipython_kernel.update_convs(1))
  with a have "priv_timer self' \<noteq> PyNone"
    by simp
  then show "started (fst s')" by (simp add: s' started_def)
  then show "start env g s' = (Inl (Exception ''IPython kernel is already running.''), s')"
    by (simp add: start_def started_def s')
qed

lemma start_raises_when_handle_set_example:
  "start (fake_env (1 / 20)) fake_globals
     (\<lparr>priv_timer = PyRef 20, connection_file = Some ''conn.json''\<rparr>, fake_world) =
     (Inl (Exception ''IPython kernel is already running.''),
      (\<lparr>priv_timer = PyRef 20, connection_file = Some ''conn.json''\<rparr>, fake_world))
 \<and> start (fake_env (1 / 20)) fake_globals
     (snd (start (fake_env (1 / 20)) fake_globals (init (fake_env (1 / 20)), fake_world))) =
     (Inl (Exception ''IPython kernel is already running.''),
      snd (start (fake_env (1 / 20)) fake_globals (init (fake_env (1 / 20)), fake_world)))"
  using start_raises_when_handle_set [where self = "\<lparr>priv_timer = PyRef 20, connection_file = Some ''conn.json''\<rparr>"
      and env = "fake_env (1 / 20)" and g = fake_globals and w = fake_world]
    start_raises_when_handle_set [where self = "init (fake_env (1 / 20))"
      and env = "fake_env (1 / 20)" and g = fake_globals and w = fake_world
      and s' = "snd (start (fake_env (1 / 20)) fake_globals (init (fake_env (1 / 20)), fake_world))"]
  by (simp add: fake_start started_def) (simp add: fake_env_def is_using_ipykernel_5_def)

text \<open>
  C3. A second \<open>start\<close> on a started instance has to raise \<open>IPython kernel is already
  running.\<close> and leave the instance as it was. With an engine that manages its own
  thread (ipykernel 5 and later) it does not: \<open>start\<close> sets the timer handle only in
  manual-iteration mode, so after a first \<open>start\<close> that returned the instance does not
  count as started, and the second \<open>start\<close> returns too, having called
  \<open>set_completer_frame\<close> and \<open>app.kernel.start()\<close> once more.
\<close>

theorem start_twice_thread_mode:
  "is_using_ipykernel_5 ((fake_env (1 / 20))\<lparr>kernel_has_process_one := True\<rparr>)
 \<and> fst (start ((fake_env (1 / 20))\<lparr>kernel_has_process_one := True\<rparr>) fake_globals
          (init ((fake_env (1 / 20))\<lparr>kernel_has_process_one := True\<rparr>), fake_world)) = Inr ()
 \<and> \<not> started (fst (snd (start ((fake_env (1 / 20))\<lparr>kernel_has_process_one := True\<rparr>)
          fake_globals
          (init ((fake_env (1 / 20))\<lparr>kernel_has_process_one := True\<rparr>), fake_world))))
 \<and> fst (start ((fake_env (1 / 20))\<lparr>kernel_has_process_one := True\<rparr>) fake_globals
          (snd (start ((fake_env (1 / 20))\<lparr>kernel_has_process_one := True\<rparr>) fake_globals
             (init ((fake_env (1 / 20))\<lparr>kernel_has_process_one := True\<rparr>), fake_world)))) =
     Inr ()
 \<and> trace (snd (snd (start ((fake_env (1 / 20))\<lparr>kernel_has_process_one := True\<rparr>)
          fake_globals
          (snd (start ((fake_env (1 / 20))\<lparr>kernel_has_process_one := True\<rparr>) fake_globals
             (init ((fake_env (1 / 20))\<lparr>kernel_has_process_one := True\<rparr>), fake_world)))))) =
     [Get_logger ''ipyida_kernel'', App_instance ''ipyida.kernel.IDATeeOutStream'',
      App_initialize (Some [''-f'', ''conn.json'']), Logger_set_level,
      Set_completer_frame, Kernel_start, Print (banner ''conn.json''),
      Set_completer_frame, Kernel_start, Print (banner ''conn.json'')]"
  by (simp add: fake_run started_def)

text \<open>
  C4 claims a registration interval equal to 1000 times the poll interval. With a poll
  interval of \<open>1/1024\<close> s (a float; its product with 1000 is the float \<open>125/128\<close>,
  exactly) the interval registered is 0.
\<close>

theorem start_poll_driven_counterexample:
  "fst (start (fake_env (1 / 1024)) fake_globals (init (fake_env (1 / 1024)), fake_world)) = Inr ()
 \<and> \<not> is_using_ipykernel_5 (fake_env (1 / 1024))
 \<and> trace (snd (snd (start (fake_env (1 / 1024)) fake_globals
                      (init (fake_env (1 / 1024)), fake_world)))) =
     [Get_logger ''ipyida_kernel'', App_instance ''ipyida.kernel.IDATeeOutStream'',
      App_initialize (Some [''-f'', ''conn.json'']), Logger_set_level, Set_completer_frame,
      Kernel_start, Print (banner ''conn.json''), Kernel_do_one_iteration,
      Register_timer 0 Ipython_kernel_iteration]
 \<and> kernel_poll_interval (snd (snd (start (fake_env (1 / 1024)) fake_globals
                      (init (fake_env (1 / 1024)), fake_world)))) = 1 / 1024
 \<and> float_mul (fake_env (1 / 1024)) 1000 (1 / 1024) = 125 / 128
 \<and> of_int 0 \<noteq> (125 / 128 :: rat)"
  by (simp add: fake_run)

text \<open>
  C4, amended. When the engine does not manage its own thread, a \<open>start\<close> that returns
  has performed exactly one manual iteration and then, as its last call, exactly one
  scheduler registration, whose interval is \<open>int(1000 * poll interval)\<close>: the product
  truncated to whole milliseconds; the handle returned is stored. The registered
  callback performs exactly one iteration per call and, when that returns, returns
  \<open>int(1000 * poll interval)\<close>. Where the product is a whole number, the interval is
  that number.
\<close>

theorem start_poll_driven:
  "(\<not> is_using_ipykernel_5 env \<and> start env g (self, w) = (Inr (), (self', w')) \<longrightarrow>
      (\<exists>pre. trace w' = trace w @ pre @
                [Kernel_do_one_iteration,
                 Register_timer (py_int (float_mul env 1000 (kernel_poll_interval w')))
                   Ipython_kernel_iteration]
            \<and> list_all (\<lambda>e. \<not> runloop_event e) pre)
      \<and> priv_timer self' =
          register_timer env (py_int (float_mul env 1000 (kernel_poll_interval w')))
            Ipython_kernel_iteration)
 \<and> trace (snd (call_callback env Ipython_kernel_iteration v)) =
      trace v @ [Kernel_do_one_iteration]
 \<and> (kernel_do_one_iteration env v = (Inr (), v') \<longrightarrow>
      fst (call_callback env Ipython_kernel_iteration v) =
        Inr (py_int (float_mul env 1000 (kernel_poll_interval v'))))
 \<and> (float_mul env 1000 p = of_int n \<longrightarrow> py_int (float_mul env 1000 p) = n)"
proof (intro conjI impI)
  assume a: "\<not> is_using_ipykernel_5 env \<and> start env g (self, w) = (Inr (), (self', w'))"
  then have st: "start env g (self, w) = (Inr (), (self', w'))"
    and n5: "\<not> is_using_ipykernel_5 env" by simp_all
  from st n5 obtain w1 w2 w3 w5 w6 where steps:
    "(if app_initialized w then py_return () else first_creation env g self) w = (Inr (), w1)"
    "external Set_completer_frame (set_completer_frame env) w1 = (Inr (), w2)"
    "external Kernel_start (kernel_start env) w2 = (Inr (), w3)"
    "external (Print (banner (app_connection_file w3)))
       (print env (banner (app_connection_file w3))) w3 = (Inr (), w5)"
    "external Kernel_do_one_iteration (kernel_do_one_iteration env) w5 = (Inr (), w6)"
    "self' = self\<lparr>connection_file := Some (app_connection_file w3),
                   priv_timer := register_timer env (poll_ms env w6) Ipython_kernel_iteration\<rparr>"
    "w' = w6\<lparr>trace := trace w6 @ [Register_timer (poll_ms env w6) Ipython_kernel_iteration]\<rparr>"
    by (rule start_success_steps)
  have tw': "trace w' = trace w6 @ [Register_timer (poll_ms env w6) Ipython_kernel_iteration]"
    using steps(7) by simp
  have pm: "poll_ms env w6 = py_int (float_mul env 1000 (kernel_poll_interval w'))"
    using steps(7) by (simp add: poll_ms_def)
  have "grows (\<lambda>e. \<not> runloop_event e) trace
          (if app_initialized w then py_return () else first_creation env g self)"
    by (simp add: grows_return first_creation_grows)
  from growsD[OF this, of w] steps(1)
  obtain e1 where e1: "trace w1 = trace w @ e1" "list_all (\<lambda>e. \<not> runloop_event e) e1"
    by auto
  let ?pre = "e1 @ [Set_completer_frame, Kernel_start, Print (banner (app_connection_file w3))]"
  have "trace w' = trace w @ ?pre @ [Kernel_do_one_iteration,
          Register_timer (py_int (float_mul env 1000 (kernel_poll_interval w')))
            Ipython_kernel_iteration]"
    using tw' pm e1(1) external_traceD[OF steps(2)] external_traceD[OF steps(3)]
      external_traceD[OF steps(4)] external_traceD[OF steps(5)]
    by simp
  moreover have "list_all (\<lambda>e. \<not> runloop_event e) ?pre"
    using e1(2) by simp
  ultimately show "\<exists>pre. trace w' = trace w @ pre @
                [Kernel_do_one_iteration,
                 Register_timer (py_int (float_mul env 1000 (kernel_poll_interval w')))
                   Ipython_kernel_iteration]
            \<and> list_all (\<lambda>e. \<not> runloop_event e) pre"
    by blast
  show "priv_timer self' =
          register_timer env (py_int (float_mul env 1000 (kernel_poll_interval w')))
            Ipython_kernel_iteration"
    using steps(6) pm by simp
next
  show "trace (snd (call_callback env Ipython_kernel_iteration v)) =
      trace v @ [Kernel_do_one_iteration]"
    by (simp add: ipython_kernel_iteration_def py_bind_def external_def
        split: prod.splits sum.splits)
next
  assume "kernel_do_one_iteration env v = (Inr (), v')"
  then show "fst (call_callback env Ipython_kernel_iteration v) =
        Inr (py_int (float_mul env 1000 (kernel_poll_interval v')))"
    by (simp add: ipython_kernel_iteration_def py_bind_def external_def poll_ms_def)
next
  assume "float_mul env 1000 p = of_int n"
  then show "py_int (float_mul env 1000 p) = n"
    by (simp add: py_int_def)
qed

theorem start_poll_driven_witness:
  "(\<exists>pre. [Get_logger ''ipyida_kernel'', App_instance ''ipyida.kernel.IDATeeOutStream'',
      App_initialize (Some [''-f'', ''conn.json'']), Logger_set_level, Set_completer_frame,
      Kernel_start, Print (banner ''conn.json''), Kernel_do_one_iteration,
      Register_timer 50 Ipython_kernel_iteration] =
      pre @ [Kernel_do_one_iteration, Register_timer 50 Ipython_kernel_iteration]
      \<and> list_all (\<lambda>e. \<not> runloop_event e) pre)
 \<and> fst (call_callback (fake_env (1 / 20)) Ipython_kernel_iteration
          (fake_world\<lparr>kernel_poll_interval := 1 / 20\<rparr>)) = Inr 50
 \<and> py_int (float_mul (fake_env (1 / 20)) 1000 (1 / 20)) = 50"
  using start_poll_driven [where env = "fake_env (1 / 20)" and g = fake_globals
      and self = "init (fake_env (1 / 20))" and w = fake_world
      and self' = "\<lparr>priv_timer = PyRef 20, connection_file = Some ''conn.json''\<rparr>"
      and w' = "fake_world\<lparr>sys_stdout := PyRef 10, sys_stderr := PyRef 11,
          sys_excepthook := Ipyida_excepthook (Builtin 3) (Builtin 12),
          sys_displayhook := Ipyida_displayhook (Builtin 4) (Builtin 13),
          app_initialized := True,
          app_connection_file := ''conn.json'',
          kernel_poll_interval := 1 / 20,
          trace := [Get_logger ''ipyida_kernel'', App_instance ''ipyida.kernel.IDATeeOutStream'',
      App_initialize (Some [''-f'', ''conn.json'']), Logger_set_level, Set_completer_frame,
      Kernel_start, Print (banner ''conn.json''), Kernel_do_one_iteration,
      Register_timer 50 Ipython_kernel_iteration]\<rparr>"
      and v = "fake_world\<lparr>kernel_poll_interval := 1 / 20\<rparr>"
      and v' = "fake_world\<lparr>kernel_poll_interval := 1 / 20\<rparr>" and p = "1 / 20" and n = 50]
    fake_start
  by (simp add: fake_env_def is_using_ipykernel_5_def py_return_def fake_world_def py_int_def)

text \<open>
  C10. \<open>stop\<close> sets the connection file to \<open>None\<close> whatever it was. For an instance
  constructed with \<open>JUPYTER_CONNECTION\<close> set, a \<open>stop\<close> before any \<open>start\<close> forgets the
  connection file; the next \<open>start\<close> never calls \<open>app.initialize\<close> with arguments and,
  when it is the first one of the process and the singleton can be created, calls
  \<open>app.initialize()\<close> without arguments, so that the engine allocates a connection.
  Without the \<open>stop\<close>, the same \<open>start\<close> calls \<open>app.initialize(['-f', connection_file])\<close>
  (for a non-empty value of the variable).
\<close>

theorem stop_forgets_presupplied_connection:
  assumes "environ env ''JUPYTER_CONNECTION'' = Some cf"
  shows "connection_file (init env) = Some cf
     \<and> connection_file (fst (snd (stop g (init env, w)))) = None
     \<and> (\<exists>evs. trace (snd (snd (start env g (snd (stop g (init env, w)))))) = trace w @ evs
            \<and> list_all (\<lambda>e. \<forall>argv. e \<noteq> App_initialize (Some argv)) evs)
     \<and> (\<not> app_initialized w \<and>
        (\<forall>v. fst (app_instance env ''ipyida.kernel.IDATeeOutStream'' v) = Inr ()) \<longrightarrow>
          (\<exists>evs. trace (snd (snd (start env g (snd (stop g (init env, w)))))) =
             trace w @ [Get_logger ''ipyida_kernel'',
                        App_instance ''ipyida.kernel.IDATeeOutStream'',
                        App_initialize None] @ evs))
     \<and> (cf \<noteq> [] \<and> \<not> app_initialized w \<and>
        (\<forall>v. fst (app_instance env ''ipyida.kernel.IDATeeOutStream'' v) = Inr ()) \<longrightarrow>
          (\<exists>evs. trace (snd (snd (start env g (init env, w)))) =
             trace w @ [Get_logger ''ipyida_kernel'',
                        App_instance ''ipyida.kernel.IDATeeOutStream'',
                        App_initialize (Some [''-f'', cf])] @ evs))"
proof (intro conjI impI)
  let ?k = "\<lparr>priv_timer = PyNone, connection_file = None\<rparr>"
  let ?w = "w\<lparr>sys_stdout := ida_stdout g, sys_stderr := ida_stderr g\<rparr>"
  have stop: "snd (stop g (init env, w)) = (?k, ?w)"
    by (simp add: stop_def init_def)
  show "connection_file (init env) = Some cf"
    using assms by (simp add: init_def)
  show "connection_file (fst (snd (stop g (init env, w)))) = None"
    by (simp add: stop)
  show "\<exists>evs. trace (snd (snd (start env g (snd (stop g (init env, w)))))) = trace w @ evs
            \<and> list_all (\<lambda>e. \<forall>argv. e \<noteq> App_initialize (Some argv)) evs"
    using start_grows[where P = "\<lambda>e. \<forall>argv. e \<noteq> App_initialize (Some argv)"
        and self = ?k and env = env and g = g and w = ?w]
    unfolding stop
    by (auto elim: initialize_event.elims)
  {
    assume a: "\<not> app_initialized w \<and>
        (\<forall>v. fst (app_instance env ''ipyida.kernel.IDATeeOutStream'' v) = Inr ())"
    from first_creation_prefix[of env g ?k ?w] a
    obtain e1 where e1: "trace (snd (first_creation env g ?k ?w)) =
           trace w @ [Get_logger ''ipyida_kernel'', App_instance ''ipyida.kernel.IDATeeOutStream'',
             App_initialize None] @ e1"
      by auto
    from start_after_first_creation[where P = "\<lambda>e. True" and self = ?k and w = ?w and env = env and g = g] a
    obtain e2 where "trace (snd (snd (start env g (?k, ?w)))) =
           trace (snd (first_creation env g ?k ?w)) @ e2"
      by auto
    with e1 show "\<exists>evs. trace (snd (snd (start env g (snd (stop g (init env, w)))))) =
             trace w @ [Get_logger ''ipyida_kernel'',
                        App_instance ''ipyida.kernel.IDATeeOutStream'',
                        App_initialize None] @ evs"
      unfolding stop by simp
  }
  {
    assume a: "cf \<noteq> [] \<and> \<not> app_initialized w \<and>
        (\<forall>v. fst (app_instance env ''ipyida.kernel.IDATeeOutStream'' v) = Inr ())"
    from first_creation_prefix[of env g "init env" w] a assms
    obtain e1 where e1: "trace (snd (first_creation env g (init env) w)) =
           trace w @ [Get_logger ''ipyida_kernel'', App_instance ''ipyida.kernel.IDATeeOutStream'',
             App_initialize (Some [''-f'', cf])] @ e1"
      by (auto simp: init_def)
    from start_after_first_creation[where P = "\<lambda>e. True" and self = "init env" and w = w and env = env and g = g] a
    obtain e2 where "trace (snd (snd (start env g (init env, w)))) =
           trace (snd (first_creation env g (init env) w)) @ e2"
      by (auto simp: init_def)
    with e1 show "\<exists>evs. trace (snd (snd (start env g (init env, w)))) =
             trace w @ [Get_logger ''ipyida_kernel'',
                        App_instance ''ipyida.kernel.IDATeeOutStream'',
                        App_initialize (Some [''-f'', cf])] @ evs"
      by simp
  }
qed

theorem stop_forgets_presupplied_connection_witness:
  "connection_file (init (fake_env (1 / 20))) = Some ''conn.json''
 \<and> connection_file (fst (snd (stop fake_globals (init (fake_env (1 / 20)), fake_world)))) = None
 \<and> (\<exists>evs. trace (snd (snd (start (fake_env (1 / 20)) fake_globals
               (snd (stop fake_globals (init (fake_env (1 / 20)), fake_world)))))) =
       [Get_logger ''ipyida_kernel'', App_instance ''ipyida.kernel.IDATeeOutStream'',
        App_initialize None] @ evs)
 \<and> (\<exists>evs. trace (snd (snd (start (fake_env (1 / 20)) fake_globals
               (init (fake_env (1 / 20)), fake_world)))) =
       [Get_logger ''ipyida_kernel'', App_instance ''ipyida.kernel.IDATeeOutStream'',
        App_initialize (Some [''-f'', ''conn.json''])] @ evs)"
  using stop_forgets_presupplied_connection [where env = "fake_env (1 / 20)"
      and cf = "''conn.json''" and g = fake_globals and w = fake_world]
  by (simp add: fake_env_def assign_def fake_world_def)

end
